theory Spec2Isabelle
  imports Main "HOL-Library.Word"
begin

section \<open>Errors\<close>

text \<open>
  Go errors as values. \<open>ErrorsNew\<close> is \<^verbatim>\<open>errors.New(text)\<close>, \<open>ErrorsWrap\<close> is
  \<^verbatim>\<open>errors.Wrap(cause, message)\<close> of github.com/pkg/errors. The other constructors are
  the errors that come back from the library and from collaborators, each with the text
  it prints: \<open>LookPathError\<close> from \<^verbatim>\<open>exec.LookPath\<close>, \<open>PathError\<close> from
  \<^verbatim>\<open>os.WriteFile\<close> and \<^verbatim>\<open>os.ReadFile\<close>, \<open>SecretError\<close> from
  \<^verbatim>\<open>GetClientSecret\<close>, \<open>CloudError\<close> from a cloud API call.
\<close>

datatype error =
    ErrorsNew string
  | ErrorsWrap error string
  | LookPathError string
  | PathError string
  | SecretError string
  | CloudError string

text \<open>The method \<^verbatim>\<open>Error()\<close>: a wrapped error prints its message, a colon and its cause.\<close>

primrec Error :: "error \<Rightarrow> string" where
  "Error (ErrorsNew s) = s"
| "Error (ErrorsWrap cause msg) = msg @ '': '' @ Error cause"
| "Error (LookPathError s) = s"
| "Error (PathError s) = s"
| "Error (SecretError s) = s"
| "Error (CloudError s) = s"

section \<open>The process, its environment and its files\<close>

type_synonym bytes = string
type_synonym environment = "string \<rightharpoonup> string"
type_synonym filesystem = "string \<rightharpoonup> bytes"

text \<open>
  What \<^verbatim>\<open>cmd.Run()\<close> comes back with: the child ran and left an exit status
  (\<^verbatim>\<open>nil\<close> for status 0, an \<^verbatim>\<open>*exec.ExitError\<close> otherwise), or it could not be
  started or awaited at all.
\<close>

datatype run_outcome = Exited int | RunFailed string

definition run_err :: "run_outcome \<Rightarrow> bool" where
  "run_err r = (case r of Exited n \<Rightarrow> n \<noteq> 0 | RunFailed _ \<Rightarrow> True)"

text \<open>
  The calls the code makes on the operating system, in the order it makes them. The
  environment calls are those written in the source (\<^verbatim>\<open>os.LookupEnv\<close>,
  \<^verbatim>\<open>os.Getenv\<close>, \<^verbatim>\<open>os.Setenv\<close>, \<^verbatim>\<open>os.Unsetenv\<close>) and the reads that the
  library calls of the source make on Unix (\<^verbatim>\<open>os.TempDir\<close> reads TMPDIR,
  \<^verbatim>\<open>exec.LookPath\<close> reads PATH); \<open>ProcessRun\<close> carries the executable's path, its
  arguments and the environment handed to the child.
\<close>

datatype event =
    EnvRead string
  | EnvSet string string
  | EnvUnset string
  | FileWrite string bytes
  | FileRead string
  | FileRemove string
  | ProcessRun string "string list" "string list"

record world =
  environ :: environment
  files :: filesystem
  events :: "event list"

text \<open>
  The behaviour of the platform that the source does not decide: whether a write, a
  read or a removal of a path fails, what \<^verbatim>\<open>exec.LookPath\<close> finds, and what a child
  process does (its outcome, the text on its standard error, and the files as it leaves
  them).
\<close>

record platform =
  WriteFile_err :: "string \<Rightarrow> error option"
  ReadFile_err :: "string \<Rightarrow> error option"
  Remove_err :: "string \<Rightarrow> error option"
  LookPath :: "string \<Rightarrow> error + string"
  Run :: "string \<Rightarrow> string list \<Rightarrow> string list \<Rightarrow> filesystem \<Rightarrow> run_outcome \<times> string \<times> filesystem"

definition log :: "event \<Rightarrow> world \<Rightarrow> world" where
  "log ev w = w\<lparr>events := events w @ [ev]\<rparr>"

definition LookupEnv :: "string \<Rightarrow> world \<Rightarrow> string option \<times> world" where
  \<comment> \<open>\<^verbatim>\<open>(value, set)\<close> as an option: \<open>None\<close> is \<^verbatim>\<open>set == false\<close>.\<close>
  "LookupEnv key w = (environ w key, log (EnvRead key) w)"

definition envValue :: "environment \<Rightarrow> string \<Rightarrow> string" where
  \<comment> \<open>What \<^verbatim>\<open>os.Getenv\<close> returns: an unset variable reads as the empty string.\<close>
  "envValue env key = (case env key of None \<Rightarrow> [] | Some v \<Rightarrow> v)"

definition Getenv :: "string \<Rightarrow> world \<Rightarrow> string \<times> world" where
  "Getenv key w = (envValue (environ w) key, log (EnvRead key) w)"

definition Setenv :: "string \<Rightarrow> string \<Rightarrow> world \<Rightarrow> world" where
  "Setenv key v w = log (EnvSet key v) (w\<lparr>environ := (environ w)(key \<mapsto> v)\<rparr>)"

definition Unsetenv :: "string \<Rightarrow> world \<Rightarrow> world" where
  "Unsetenv key w = log (EnvUnset key) (w\<lparr>environ := (environ w)(key := None)\<rparr>)"

definition WriteFile :: "platform \<Rightarrow> string \<Rightarrow> bytes \<Rightarrow> world \<Rightarrow> error option \<times> world" where
  \<comment> \<open>A write that fails leaves the files as they were.\<close>
  "WriteFile P name d w =
     (case WriteFile_err P name of
        Some err \<Rightarrow> (Some err, log (FileWrite name d) w)
      | None \<Rightarrow> (None, log (FileWrite name d) (w\<lparr>files := (files w)(name \<mapsto> d)\<rparr>)))"

definition ReadFile :: "platform \<Rightarrow> string \<Rightarrow> world \<Rightarrow> (error + bytes) \<times> world" where
  "ReadFile P name w =
     (case files w name of
        None \<Rightarrow> (Inl (PathError (''open '' @ name @ '': no such file or directory'')), log (FileRead name) w)
      | Some d \<Rightarrow>
          (case ReadFile_err P name of
             Some err \<Rightarrow> (Inl err, log (FileRead name) w)
           | None \<Rightarrow> (Inr d, log (FileRead name) w)))"

definition Remove :: "platform \<Rightarrow> string \<Rightarrow> world \<Rightarrow> error option \<times> world" where
  \<comment> \<open>A removal that fails leaves the files as they were.\<close>
  "Remove P name w =
     (case Remove_err P name of
        Some err \<Rightarrow> (Some err, log (FileRemove name) w)
      | None \<Rightarrow> (None, log (FileRemove name) (w\<lparr>files := (files w)(name := None)\<rparr>)))"

definition TempDir :: "world \<Rightarrow> string \<times> world" where
  \<comment> \<open>\<^verbatim>\<open>os.TempDir()\<close> on Unix: \<^verbatim>\<open>$TMPDIR\<close> if it is not empty, else \<^verbatim>\<open>/tmp\<close>.\<close>
  "TempDir w =
     (let (dir, w') = Getenv ''TMPDIR'' w
      in (if dir = [] then ''/tmp'' else dir, w'))"

definition execLookPath :: "platform \<Rightarrow> string \<Rightarrow> world \<Rightarrow> (error + string) \<times> world" where
  \<comment> \<open>\<^verbatim>\<open>exec.LookPath\<close> on Unix: a name with a slash is tried as it is; any other name
      is searched in the directories of \<^verbatim>\<open>$PATH\<close>.\<close>
  "execLookPath P file w =
     (LookPath P file, if CHR ''/'' \<in> set file then w else log (EnvRead ''PATH'') w)"

section \<open>The credentials provider\<close>

text \<open>
  \<^verbatim>\<open>*scope.ManagedControlPlaneCredentialsProvider\<close>, by what its three methods return.
  The pointer is an option: \<open>None\<close> is \<^verbatim>\<open>nil\<close>.
\<close>

record provider =
  GetClientSecret :: "error + string"
  GetClientID :: string
  GetTenantID :: string

section \<open>The kubeconfig conversion\<close>

definition KubeloginDefault :: string where
  "KubeloginDefault = ''kubelogin''"

definition KubeloginEnvVarName :: string where
  "KubeloginEnvVarName = ''KUBELOGIN_PATH''"

definition KubeConfigEnvVarName :: string where
  "KubeConfigEnvVarName = ''KUBECONFIG''"

definition GetKubeloginExecutablePath :: "world \<Rightarrow> string \<times> world" where
  "GetKubeloginExecutablePath w =
     (let (kubeloginPath, w') = LookupEnv KubeloginEnvVarName w in
      case kubeloginPath of
        Some p \<Rightarrow> (p, w')
      | None \<Rightarrow> (KubeloginDefault, w'))"

definition ExecCommand :: "platform \<Rightarrow> string \<Rightarrow> string list \<Rightarrow> world \<Rightarrow> error option \<times> world" where
  "ExecCommand P cmdName cmdArgs w =
     (let (found, w0) = execLookPath P cmdName w in
      case found of
        Inl err \<Rightarrow> (Some err, w0)
      | Inr path \<Rightarrow>
          (let (home, w1) = Getenv ''HOME'' w0;
               (pathVar, w2) = Getenv ''PATH'' w1;
               cmdEnv = [''HOME='' @ home, ''PATH='' @ pathVar];
               (outcome, errb, files') = Run P path cmdArgs cmdEnv (files w2);
               w3 = log (ProcessRun path cmdArgs cmdEnv) (w2\<lparr>files := files'\<rparr>)
           in if run_err outcome then (Some (ErrorsNew errb), w3) else (None, w3)))"

text \<open>
  \<open>fileName\<close> of \<^verbatim>\<open>ConvertKubeConfig\<close>:
  \<^verbatim>\<open>fmt.Sprintf("%s/kubeconfig-%s", os.TempDir(), clusterName)\<close>.
\<close>

definition fileName :: "string \<Rightarrow> string \<Rightarrow> string" where
  "fileName dir clusterName = dir @ ''/kubeconfig-'' @ clusterName"

text \<open>
  The deferred function: it runs on every return after the \<^verbatim>\<open>defer\<close> statement, and
  drops the error of \<^verbatim>\<open>os.Remove\<close>.
\<close>

definition deferred :: "platform \<Rightarrow> string option \<Rightarrow> string \<Rightarrow> world \<Rightarrow> world" where
  "deferred P kubeConfigToRestore name w =
     snd (Remove P name
       (case kubeConfigToRestore of
          Some v \<Rightarrow> Setenv KubeConfigEnvVarName v w
        | None \<Rightarrow> Unsetenv KubeConfigEnvVarName w))"

text \<open>The arguments of the helper, as \<^verbatim>\<open>ConvertKubeConfig\<close> lists them.\<close>

definition kubeloginArgs :: "provider \<Rightarrow> string \<Rightarrow> string \<Rightarrow> string list" where
  "kubeloginArgs cp clientSecret kubeconfig =
     [''convert-kubeconfig'', ''-l'', ''spn'', ''--client-id'', GetClientID cp,
      ''--client-secret'', clientSecret, ''--tenant-id'', GetTenantID cp,
      ''--kubeconfig'', kubeconfig]"

text \<open>The statements of \<^verbatim>\<open>ConvertKubeConfig\<close> after the \<^verbatim>\<open>defer\<close>, up to each return.\<close>

definition convert_body :: "platform \<Rightarrow> string \<Rightarrow> bytes \<Rightarrow> provider \<Rightarrow> world \<Rightarrow> (error + bytes) \<times> world" where
  "convert_body P name configData cp w =
     (let (werr, w1) = WriteFile P name configData (Setenv KubeConfigEnvVarName name w) in
      case werr of
        Some err \<Rightarrow> (Inl err, w1)
      | None \<Rightarrow>
          (case GetClientSecret cp of
             Inl err \<Rightarrow> (Inl (ErrorsWrap err ''failed to get client secret''), w1)
           | Inr clientSecret \<Rightarrow>
               (let (kubeLogin, w2) = GetKubeloginExecutablePath w1;
                    (kubeconfig, w3) = Getenv KubeConfigEnvVarName w2;
                    (xerr, w4) = ExecCommand P kubeLogin (kubeloginArgs cp clientSecret kubeconfig) w3
                in case xerr of
                     Some err \<Rightarrow>
                       (Inl (ErrorsWrap err ''could not convert kubeconfig to non interactive format''), w4)
                   | None \<Rightarrow> ReadFile P name w4)))"

definition ConvertKubeConfig :: "platform \<Rightarrow> string \<Rightarrow> bytes \<Rightarrow> provider option \<Rightarrow> world \<Rightarrow> (error + bytes) \<times> world" where
  "ConvertKubeConfig P clusterName configData credentialsProvider w =
     (case credentialsProvider of
        None \<Rightarrow> (Inl (ErrorsNew ''cannot convert kubeconfig without credential provider''), w)
      | Some cp \<Rightarrow>
          (let (dir, w0) = TempDir w;
               name = fileName dir clusterName;
               (kubeConfigToRestore, w1) = LookupEnv KubeConfigEnvVarName w0;
               (r, w2) = convert_body P name configData cp w1
           in (r, deferred P kubeConfigToRestore name w2)))"

subsection \<open>Reading the trace\<close>

text \<open>
  The events a call added to the trace, the environment variables an event names, and
  the environment an event hands to a child process.
\<close>

definition new_events :: "world \<Rightarrow> world \<Rightarrow> event list" where
  "new_events w w' = drop (length (events w)) (events w')"

primrec env_name :: "event \<Rightarrow> string list" where
  "env_name (EnvRead key) = [key]"
| "env_name (EnvSet key v) = [key]"
| "env_name (EnvUnset key) = [key]"
| "env_name (FileWrite name d) = []"
| "env_name (FileRead name) = []"
| "env_name (FileRemove name) = []"
| "env_name (ProcessRun path args env) = []"

definition env_names :: "event list \<Rightarrow> string list" where
  "env_names es = concat (map env_name es)"

primrec child_env :: "event \<Rightarrow> string list list" where
  "child_env (EnvRead key) = []"
| "child_env (EnvSet key v) = []"
| "child_env (EnvUnset key) = []"
| "child_env (FileWrite name d) = []"
| "child_env (FileRead name) = []"
| "child_env (FileRemove name) = []"
| "child_env (ProcessRun path args env) = [env]"

definition child_envs :: "event list \<Rightarrow> string list list" where
  "child_envs es = concat (map child_env es)"

definition events_on :: "string \<Rightarrow> event list \<Rightarrow> event list" where
  \<comment> \<open>The calls that name one environment variable.\<close>
  "events_on key es = filter (\<lambda>ev. env_name ev = [key]) es"

text \<open>
  The values the code computes from the environment it starts in: the temporary
  directory, the environment of the child (\<open>cmd.Env\<close> in \<^verbatim>\<open>ExecCommand\<close>) and the
  helper's name (\<^verbatim>\<open>GetKubeloginExecutablePath\<close>).
\<close>

definition tempDir :: "environment \<Rightarrow> string" where
  "tempDir env = (if envValue env ''TMPDIR'' = [] then ''/tmp'' else envValue env ''TMPDIR'')"

definition cmdEnv :: "environment \<Rightarrow> string list" where
  "cmdEnv env = [''HOME='' @ envValue env ''HOME'', ''PATH='' @ envValue env ''PATH'']"

definition kubeloginPath :: "environment \<Rightarrow> string" where
  "kubeloginPath env = (case env KubeloginEnvVarName of Some p \<Rightarrow> p | None \<Rightarrow> KubeloginDefault)"

subsection \<open>A concrete run\<close>

text \<open>
  A platform where no file operation fails, kubelogin is found on the search path and
  exits with the given status after writing the given text to its standard error,
  leaving the files alone; a process with HOME and PATH set and neither TMPDIR nor
  KUBECONFIG; a provider whose secret resolves.
\<close>

definition example_platform :: "int \<Rightarrow> string \<Rightarrow> platform" where
  "example_platform status errText =
     \<lparr>WriteFile_err = (\<lambda>name. None),
      ReadFile_err = (\<lambda>name. None),
      Remove_err = (\<lambda>name. None),
      LookPath = (\<lambda>name. if name = ''kubelogin'' then Inr ''/usr/local/bin/kubelogin''
                          else Inl (LookPathError ''executable file not found in $PATH'')),
      Run = (\<lambda>path args env fs. (Exited status, errText, fs))\<rparr>"

definition example_world :: world where
  "example_world =
     \<lparr>environ = [''HOME'' \<mapsto> ''/root'', ''PATH'' \<mapsto> ''/usr/bin''],
      files = Map.empty,
      events = []\<rparr>"

definition example_provider :: provider where
  "example_provider =
     \<lparr>GetClientSecret = Inr ''s3cret'', GetClientID = ''client'', GetTenantID = ''tenant''\<rparr>"

text \<open>
  A sticky /tmp that already holds a file of the temporary file's name, owned by
  another user: the process may neither write nor remove it.
\<close>

definition sticky_platform :: platform where
  "sticky_platform =
     (example_platform 0 [])
       \<lparr>WriteFile_err := (\<lambda>name. Some (PathError ''permission denied'')),
        Remove_err := (\<lambda>name. Some (PathError ''operation not permitted''))\<rparr>"

definition sticky_world :: world where
  "sticky_world = example_world\<lparr>files := [''/tmp/kubeconfig-cluster1'' \<mapsto> ''theirs'']\<rparr>"

text \<open>The process of the example, started with TMPDIR set.\<close>

definition tmpdir_world :: world where
  "tmpdir_world = example_world\<lparr>environ := (environ example_world)(''TMPDIR'' \<mapsto> ''/var/tmp'')\<rparr>"

section \<open>The node-pool spec of the managed control plane scope\<close>

text \<open>
  Modelled from the spec: \<^verbatim>\<open>ManagedControlPlaneScope.AgentPoolSpec()\<close> (the spec's
  \<open>DeriveNodePoolSpec\<close>, section 4.2) is not among the sources; only its test is. The
  records carry the fields the test sets and reads. The spec's "cluster object" carries
  the cluster name, the subscription and the optional resource group, virtual network
  and subnet names; the infrastructure pool carries its optional name, SKU, mode and
  optional scaling policy. \<^verbatim>\<open>int32\<close> is a 32-bit word.
\<close>

record ManagedMachinePoolScaling =
  MinSize :: "32 word option"
  MaxSize :: "32 word option"

record AzureManagedMachinePool =
  PoolName :: "string option"
  PoolSKU :: string
  PoolMode :: string
  Scaling :: "ManagedMachinePoolScaling option"

record MachinePool =
  MachinePoolName :: string
  MachinePoolClusterName :: string

record ManagedCluster =
  ClusterName :: string
  SubscriptionID :: string
  ResourceGroupName :: "string option"
  VirtualNetworkName :: "string option"
  SubnetName :: "string option"

record AgentPoolSpec =
  Name :: string
  SKU :: string
  Replicas :: "32 word"
  Mode :: string
  Cluster :: string
  VnetSubnetID :: string
  EnableAutoScaling :: "bool option"
  MinCount :: "32 word option"
  MaxCount :: "32 word option"

definition orEmpty :: "string option \<Rightarrow> string" where
  \<comment> \<open>An absent segment substitutes the empty string.\<close>
  "orEmpty s = (case s of None \<Rightarrow> [] | Some v \<Rightarrow> v)"

definition SubnetID :: "string \<Rightarrow> string \<Rightarrow> string \<Rightarrow> string \<Rightarrow> string" where
  "SubnetID sub rg vnet subnet =
     ''/subscriptions/'' @ sub @ ''/resourceGroups/'' @ rg @
     ''/providers/Microsoft.Network/virtualNetworks/'' @ vnet @ ''/subnets/'' @ subnet"

definition DeriveNodePoolSpec :: "ManagedCluster \<Rightarrow> MachinePool \<Rightarrow> AzureManagedMachinePool \<Rightarrow> AgentPoolSpec" where
  "DeriveNodePoolSpec cluster pool infraPool =
     (let base =
        \<lparr>Name = orEmpty (PoolName infraPool),
         SKU = PoolSKU infraPool,
         Replicas = 1,
         Mode = PoolMode infraPool,
         Cluster = ClusterName cluster,
         VnetSubnetID =
           SubnetID (SubscriptionID cluster) (orEmpty (ResourceGroupName cluster))
             (orEmpty (VirtualNetworkName cluster)) (orEmpty (SubnetName cluster)),
         EnableAutoScaling = None,
         MinCount = None,
         MaxCount = None\<rparr>
      in case Scaling infraPool of
           None \<Rightarrow> base
         | Some sc \<Rightarrow>
             (case (MinSize sc, MaxSize sc) of
                (Some lo, Some hi) \<Rightarrow>
                  base\<lparr>EnableAutoScaling := Some True, MinCount := Some lo, MaxCount := Some hi\<rparr>
              | _ \<Rightarrow> base))"

text \<open>The inputs of the test \<^verbatim>\<open>TestManagedControlPlaneScope_Autoscaling\<close>.\<close>

definition test_cluster :: ManagedCluster where
  "test_cluster =
     \<lparr>ClusterName = ''cluster1'',
      SubscriptionID = ''00000000-0000-0000-0000-000000000000'',
      ResourceGroupName = None, VirtualNetworkName = None, SubnetName = None\<rparr>"

definition getMachinePool :: "string \<Rightarrow> MachinePool" where
  "getMachinePool name = \<lparr>MachinePoolName = name, MachinePoolClusterName = ''cluster1''\<rparr>"

definition getAzureMachinePool :: "string \<Rightarrow> string \<Rightarrow> AzureManagedMachinePool" where
  "getAzureMachinePool name mode =
     \<lparr>PoolName = Some name, PoolSKU = ''Standard_D2s_v3'', PoolMode = mode, Scaling = None\<rparr>"

definition getAzureMachinePoolWithScaling :: "string \<Rightarrow> 32 word \<Rightarrow> 32 word \<Rightarrow> AzureManagedMachinePool" where
  "getAzureMachinePoolWithScaling name lo hi =
     (getAzureMachinePool name ''User'')\<lparr>Scaling := Some \<lparr>MinSize = Some lo, MaxSize = Some hi\<rparr>\<rparr>"

section \<open>The reconciler service\<close>

text \<open>
  Modelled from the spec: \<^verbatim>\<open>Reconcile\<close> of the role-assignment and VMSS-extension
  services (section 4.3) is not among the sources; only the generated mocks of their
  scope interfaces are. A spec is any value with a stable key. The cloud holds the keys
  of the live resources and the keys for which an API call was made, in order. Per spec:
  look the resource up by the spec's key; if the call fails, record the failure against
  that spec and go on; if the resource is absent, create it; if it is present, do
  nothing. \<open>fault\<close> says for which keys the cloud API call fails, and how.
\<close>

record cloud =
  live :: "string list"
  calls :: "string list"

datatype aggregate = Aggregate "(string \<times> error) list"

definition reconcileSpec :: "(string \<Rightarrow> error option) \<Rightarrow> string \<Rightarrow> cloud \<Rightarrow> error option \<times> cloud" where
  "reconcileSpec fault k c =
     (case fault k of
        Some err \<Rightarrow> (Some err, c\<lparr>calls := calls c @ [k]\<rparr>)
      | None \<Rightarrow>
          if k \<in> set (live c) then (None, c\<lparr>calls := calls c @ [k]\<rparr>)
          else (None, c\<lparr>live := live c @ [k], calls := calls c @ [k]\<rparr>))"

fun reconcileAll :: "('a \<Rightarrow> string) \<Rightarrow> (string \<Rightarrow> error option) \<Rightarrow> 'a list \<Rightarrow> cloud \<Rightarrow> (string \<times> error) list \<times> cloud" where
  "reconcileAll key fault [] c = ([], c)"
| "reconcileAll key fault (s # ss) c =
     (let (r, c') = reconcileSpec fault (key s) c;
          (errs, c'') = reconcileAll key fault ss c'
      in ((case r of None \<Rightarrow> [] | Some err \<Rightarrow> [(key s, err)]) @ errs, c''))"

definition Reconcile :: "('a \<Rightarrow> string) \<Rightarrow> (string \<Rightarrow> error option) \<Rightarrow> 'a list \<Rightarrow> cloud \<Rightarrow> aggregate option \<times> cloud" where
  "Reconcile key fault specs c =
     (let (errs, c') = reconcileAll key fault specs c
      in (if errs = [] then None else Some (Aggregate errs), c'))"

definition failing :: "('a \<Rightarrow> string) \<Rightarrow> (string \<Rightarrow> error option) \<Rightarrow> 'a list \<Rightarrow> 'a list" where
  \<comment> \<open>The specs whose cloud API call fails.\<close>
  "failing key fault specs = filter (\<lambda>s. fault (key s) \<noteq> None) specs"

text \<open>Three role assignments, the second of which the cloud refuses; one is already live.\<close>

definition example_specs :: "(string \<times> string) list" where
  "example_specs = [(''ra-1'', ''reader''), (''ra-2'', ''contributor''), (''ra-3'', ''owner'')]"

definition example_fault :: "string \<Rightarrow> error option" where
  "example_fault k = (if k = ''ra-2'' then Some (CloudError ''403 Forbidden'') else None)"

definition example_cloud :: cloud where
  "example_cloud = \<lparr>live = [''ra-3''], calls = []\<rparr>"

section \<open>What each operation does to the world\<close>

lemma log_sel [simp]:
  "environ (log ev w) = environ w"
  "files (log ev w) = files w"
  "events (log ev w) = events w @ [ev]"
  by (simp_all add: log_def)

lemma LookupEnv_sel [simp]:
  "fst (LookupEnv k w) = environ w k"
  "environ (snd (LookupEnv k w)) = environ w"
  "files (snd (LookupEnv k w)) = files w"
  "events (snd (LookupEnv k w)) = events w @ [EnvRead k]"
  by (simp_all add: LookupEnv_def)

lemma Getenv_sel [simp]:
  "fst (Getenv k w) = envValue (environ w) k"
  "environ (snd (Getenv k w)) = environ w"
  "files (snd (Getenv k w)) = files w"
  "events (snd (Getenv k w)) = events w @ [EnvRead k]"
  by (simp_all add: Getenv_def)

lemma Setenv_sel [simp]:
  "environ (Setenv k v w) = (environ w)(k \<mapsto> v)"
  "files (Setenv k v w) = files w"
  "events (Setenv k v w) = events w @ [EnvSet k v]"
  by (simp_all add: Setenv_def)

lemma Unsetenv_sel [simp]:
  "environ (Unsetenv k w) = (environ w)(k := None)"
  "files (Unsetenv k w) = files w"
  "events (Unsetenv k w) = events w @ [EnvUnset k]"
  by (simp_all add: Unsetenv_def)

lemma Remove_sel [simp]:
  "fst (Remove P n w) = Remove_err P n"
  "environ (snd (Remove P n w)) = environ w"
  "files (snd (Remove P n w)) =
     (case Remove_err P n of Some e \<Rightarrow> files w | None \<Rightarrow> (files w)(n := None))"
  "events (snd (Remove P n w)) = events w @ [FileRemove n]"
  by (simp_all add: Remove_def split: option.split)

lemma WriteFile_sel [simp]:
  "fst (WriteFile P n d w) = WriteFile_err P n"
  "files (snd (WriteFile P n d w)) =
     (case WriteFile_err P n of Some e \<Rightarrow> files w | None \<Rightarrow> (files w)(n \<mapsto> d))"
  "environ (snd (WriteFile P n d w)) = environ w"
  "events (snd (WriteFile P n d w)) = events w @ [FileWrite n d]"
  by (simp_all add: WriteFile_def split: option.split)

lemma ReadFile_sel [simp]:
  "environ (snd (ReadFile P n w)) = environ w"
  "files (snd (ReadFile P n w)) = files w"
  "events (snd (ReadFile P n w)) = events w @ [FileRead n]"
  by (simp_all add: ReadFile_def split: option.split)

lemma TempDir_sel [simp]:
  "fst (TempDir w) = tempDir (environ w)"
  "environ (snd (TempDir w)) = environ w"
  "files (snd (TempDir w)) = files w"
  "events (snd (TempDir w)) = events w @ [EnvRead ''TMPDIR'']"
  by (simp_all add: TempDir_def tempDir_def split_beta)

lemma execLookPath_sel [simp]:
  "fst (execLookPath P c w) = LookPath P c"
  "environ (snd (execLookPath P c w)) = environ w"
  "files (snd (execLookPath P c w)) = files w"
  "events (snd (execLookPath P c w)) =
     events w @ (if CHR ''/'' \<in> set c then [] else [EnvRead ''PATH''])"
  by (simp_all add: execLookPath_def)

lemma GetKubeloginExecutablePath_sel [simp]:
  "fst (GetKubeloginExecutablePath w) = kubeloginPath (environ w)"
  "environ (snd (GetKubeloginExecutablePath w)) = environ w"
  "files (snd (GetKubeloginExecutablePath w)) = files w"
  "events (snd (GetKubeloginExecutablePath w)) = events w @ [EnvRead KubeloginEnvVarName]"
  by (simp_all add: GetKubeloginExecutablePath_def LookupEnv_def kubeloginPath_def
      split: option.split)

lemma names_distinct [simp]:
  "KubeConfigEnvVarName \<noteq> ''HOME''"
  "KubeConfigEnvVarName \<noteq> ''PATH''"
  "KubeConfigEnvVarName \<noteq> ''TMPDIR''"
  "KubeConfigEnvVarName \<noteq> KubeloginEnvVarName"
  "''HOME'' \<noteq> KubeConfigEnvVarName"
  "''PATH'' \<noteq> KubeConfigEnvVarName"
  "''TMPDIR'' \<noteq> KubeConfigEnvVarName"
  "KubeloginEnvVarName \<noteq> KubeConfigEnvVarName"
  "KubeloginEnvVarName \<noteq> ''HOME''"
  "KubeloginEnvVarName \<noteq> ''PATH''"
  "KubeloginEnvVarName \<noteq> ''TMPDIR''"
  "''HOME'' \<noteq> KubeloginEnvVarName"
  "''PATH'' \<noteq> KubeloginEnvVarName"
  "''TMPDIR'' \<noteq> KubeloginEnvVarName"
  by (simp_all add: KubeConfigEnvVarName_def KubeloginEnvVarName_def)

lemma cmdEnv_upd [simp]: "cmdEnv (env(KubeConfigEnvVarName \<mapsto> v)) = cmdEnv env"
  by (simp add: cmdEnv_def envValue_def)

lemma kubeloginPath_upd [simp]:
  "kubeloginPath (env(KubeConfigEnvVarName \<mapsto> v)) = kubeloginPath env"
  by (simp add: kubeloginPath_def)

lemma new_events_append: "events w' = events w @ t \<Longrightarrow> new_events w w' = t"
  by (simp add: new_events_def)

lemma events_on_simps [simp]:
  "events_on k [] = []"
  "events_on k (ev # es) = (if env_name ev = [k] then ev # events_on k es else events_on k es)"
  "events_on k (es @ es') = events_on k es @ events_on k es'"
  by (simp_all add: events_on_def)

lemma env_names_simps [simp]:
  "env_names [] = []"
  "env_names (ev # es) = env_name ev @ env_names es"
  "env_names (es @ es') = env_names es @ env_names es'"
  by (simp_all add: env_names_def)

lemma child_envs_simps [simp]:
  "child_envs [] = []"
  "child_envs (ev # es) = child_env ev @ child_envs es"
  "child_envs (es @ es') = child_envs es @ child_envs es'"
  by (simp_all add: child_envs_def)

subsection \<open>ExecCommand\<close>

lemma ExecCommand_environ [simp]: "environ (snd (ExecCommand P c a w)) = environ w"
  by (simp add: ExecCommand_def Let_def split_beta split: sum.split)

lemma ExecCommand_found:
  assumes "LookPath P c = Inr path"
  shows "fst (ExecCommand P c a w) =
           (if run_err (fst (Run P path a (cmdEnv (environ w)) (files w)))
            then Some (ErrorsNew (fst (snd (Run P path a (cmdEnv (environ w)) (files w)))))
            else None)"
    and "files (snd (ExecCommand P c a w)) = snd (snd (Run P path a (cmdEnv (environ w)) (files w)))"
    and "events (snd (ExecCommand P c a w)) =
           events w @ (if CHR ''/'' \<in> set c then [] else [EnvRead ''PATH'']) @
           [EnvRead ''HOME'', EnvRead ''PATH'', ProcessRun path a (cmdEnv (environ w))]"
  using assms by (simp_all add: ExecCommand_def Let_def split_beta cmdEnv_def)

lemma ExecCommand_not_found:
  assumes "LookPath P c = Inl e"
  shows "fst (ExecCommand P c a w) = Some e"
    and "files (snd (ExecCommand P c a w)) = files w"
    and "events (snd (ExecCommand P c a w)) =
           events w @ (if CHR ''/'' \<in> set c then [] else [EnvRead ''PATH''])"
  using assms by (simp_all add: ExecCommand_def Let_def split_beta)

subsection \<open>ConvertKubeConfig\<close>

lemma convert_body_environ:
  "environ (snd (convert_body P n d cp w)) = (environ w)(KubeConfigEnvVarName \<mapsto> n)"
  by (simp add: convert_body_def Let_def split_beta split: option.split sum.split)

lemma deferred_sel:
  "environ (deferred P r n w) =
     (case r of Some v \<Rightarrow> (environ w)(KubeConfigEnvVarName \<mapsto> v)
      | None \<Rightarrow> (environ w)(KubeConfigEnvVarName := None))"
  "files (deferred P r n w) n = (case Remove_err P n of Some e \<Rightarrow> files w n | None \<Rightarrow> None)"
  "events (deferred P r n w) =
     events w @ [case r of Some v \<Rightarrow> EnvSet KubeConfigEnvVarName v
                 | None \<Rightarrow> EnvUnset KubeConfigEnvVarName,
                 FileRemove n]"
  by (simp_all add: deferred_def split: option.split)

text \<open>
  The body first sets KUBECONFIG and writes the file. Once the write has succeeded and
  the secret has resolved it looks KUBELOGIN_PATH up and reads KUBECONFIG back, each
  once; it runs a child, with the two-entry environment, exactly when the helper is also
  found. It never touches TMPDIR, and names no variable other than KUBECONFIG,
  KUBELOGIN_PATH, HOME and PATH.
\<close>

lemma convert_body_events:
  "\<exists>t. events (snd (convert_body P n d cp w)) =
          events w @ [EnvSet KubeConfigEnvVarName n, FileWrite n d] @ t
     \<and> events_on KubeConfigEnvVarName t =
         (if WriteFile_err P n = None \<and> \<not> isl (GetClientSecret cp)
          then [EnvRead KubeConfigEnvVarName] else [])
     \<and> events_on KubeloginEnvVarName t =
         (if WriteFile_err P n = None \<and> \<not> isl (GetClientSecret cp)
          then [EnvRead KubeloginEnvVarName] else [])
     \<and> events_on ''TMPDIR'' t = []
     \<and> set (env_names t) \<subseteq> {KubeConfigEnvVarName, KubeloginEnvVarName, ''HOME'', ''PATH''}
     \<and> child_envs t =
         (if WriteFile_err P n = None \<and> \<not> isl (GetClientSecret cp)
             \<and> \<not> isl (LookPath P (kubeloginPath (environ w)))
          then [cmdEnv (environ w)] else [])"
proof (cases "WriteFile_err P n")
  case (Some e)
  then show ?thesis
    by (simp add: convert_body_def Let_def split_beta)
next
  case None
  note wr = None
  show ?thesis
  proof (cases "GetClientSecret cp")
    case (Inl e)
    with wr show ?thesis
      by (simp add: convert_body_def Let_def split_beta)
  next
    case (Inr s)
    note sec = Inr
    show ?thesis
    proof (cases "LookPath P (kubeloginPath (environ w))")
      case (Inl e)
      with wr sec show ?thesis
        by (simp add: convert_body_def Let_def split_beta ExecCommand_not_found)
    next
      case (Inr path)
      with wr sec show ?thesis
        by (simp add: convert_body_def Let_def split_beta ExecCommand_found)
    qed
  qed
qed

lemma ConvertKubeConfig_events:
  "\<exists>t. new_events w (snd (ConvertKubeConfig P c d (Some cp) w)) =
          [EnvRead ''TMPDIR'', EnvRead KubeConfigEnvVarName,
           EnvSet KubeConfigEnvVarName (fileName (tempDir (environ w)) c),
           FileWrite (fileName (tempDir (environ w)) c) d] @ t @
          [case environ w KubeConfigEnvVarName of
             Some v \<Rightarrow> EnvSet KubeConfigEnvVarName v
           | None \<Rightarrow> EnvUnset KubeConfigEnvVarName,
           FileRemove (fileName (tempDir (environ w)) c)]
     \<and> events_on KubeConfigEnvVarName t =
         (if WriteFile_err P (fileName (tempDir (environ w)) c) = None
             \<and> \<not> isl (GetClientSecret cp)
          then [EnvRead KubeConfigEnvVarName] else [])
     \<and> events_on KubeloginEnvVarName t =
         (if WriteFile_err P (fileName (tempDir (environ w)) c) = None
             \<and> \<not> isl (GetClientSecret cp)
          then [EnvRead KubeloginEnvVarName] else [])
     \<and> events_on ''TMPDIR'' t = []
     \<and> set (env_names t) \<subseteq> {KubeConfigEnvVarName, KubeloginEnvVarName, ''HOME'', ''PATH''}
     \<and> child_envs t =
         (if WriteFile_err P (fileName (tempDir (environ w)) c) = None
             \<and> \<not> isl (GetClientSecret cp)
             \<and> \<not> isl (LookPath P (kubeloginPath (environ w)))
          then [cmdEnv (environ w)] else [])"
proof -
  let ?n = "fileName (tempDir (environ w)) c"
  let ?w1 = "snd (LookupEnv KubeConfigEnvVarName (snd (TempDir w)))"
  have env1: "environ ?w1 = environ w" by simp
  obtain t where t: "events (snd (convert_body P ?n d cp ?w1)) =
      events ?w1 @ [EnvSet KubeConfigEnvVarName ?n, FileWrite ?n d] @ t"
    and tk: "events_on KubeConfigEnvVarName t =
         (if WriteFile_err P ?n = None \<and> \<not> isl (GetClientSecret cp)
          then [EnvRead KubeConfigEnvVarName] else [])"
    and tl: "events_on KubeloginEnvVarName t =
         (if WriteFile_err P ?n = None \<and> \<not> isl (GetClientSecret cp)
          then [EnvRead KubeloginEnvVarName] else [])"
    and tt: "events_on ''TMPDIR'' t = []"
    and tn: "set (env_names t) \<subseteq> {KubeConfigEnvVarName, KubeloginEnvVarName, ''HOME'', ''PATH''}"
    and tc: "child_envs t =
         (if WriteFile_err P ?n = None \<and> \<not> isl (GetClientSecret cp)
             \<and> \<not> isl (LookPath P (kubeloginPath (environ w)))
          then [cmdEnv (environ w)] else [])"
    using convert_body_events [of P ?n d cp ?w1] unfolding env1 by blast
  have "events (snd (ConvertKubeConfig P c d (Some cp) w)) =
      events w @ ([EnvRead ''TMPDIR'', EnvRead KubeConfigEnvVarName,
        EnvSet KubeConfigEnvVarName ?n, FileWrite ?n d] @ t @
        [case environ w KubeConfigEnvVarName of
           Some v \<Rightarrow> EnvSet KubeConfigEnvVarName v
         | None \<Rightarrow> EnvUnset KubeConfigEnvVarName,
         FileRemove ?n])"
    by (simp add: ConvertKubeConfig_def Let_def split_beta deferred_sel t)
  then have "new_events w (snd (ConvertKubeConfig P c d (Some cp) w)) =
      [EnvRead ''TMPDIR'', EnvRead KubeConfigEnvVarName,
        EnvSet KubeConfigEnvVarName ?n, FileWrite ?n d] @ t @
        [case environ w KubeConfigEnvVarName of
           Some v \<Rightarrow> EnvSet KubeConfigEnvVarName v
         | None \<Rightarrow> EnvUnset KubeConfigEnvVarName,
         FileRemove ?n]"
    by (rule new_events_append)
  with tk tl tt tn tc show ?thesis by blast
qed

lemmas example_defs = example_platform_def example_world_def example_provider_def
  sticky_platform_def sticky_world_def tmpdir_world_def
  kubeloginPath_def KubeloginEnvVarName_def KubeloginDefault_def tempDir_def envValue_def

lemmas run_defs = ConvertKubeConfig_def convert_body_def deferred_def Let_def split_beta
  ExecCommand_found ExecCommand_not_found ReadFile_def run_err_def fileName_def
  KubeConfigEnvVarName_def

text \<open>
  Every return of \<^verbatim>\<open>ConvertKubeConfig\<close> is taken by some run: success, a failed write,
  a secret that does not resolve, a helper that is not found, a helper that exits with
  status 1, and a failed read-back.
\<close>

lemma ConvertKubeConfig_returns:
  "fst (ConvertKubeConfig (example_platform 0 []) ''cluster1'' ''config''
          (Some example_provider) example_world) = Inr ''config''"
  "fst (ConvertKubeConfig
          ((example_platform 0 [])\<lparr>WriteFile_err := (\<lambda>name. Some (PathError ''read-only file system''))\<rparr>)
          ''cluster1'' ''config'' (Some example_provider) example_world)
     = Inl (PathError ''read-only file system'')"
  "fst (ConvertKubeConfig (example_platform 0 []) ''cluster1'' ''config''
          (Some (example_provider\<lparr>GetClientSecret := Inl (SecretError ''secret not found'')\<rparr>))
          example_world)
     = Inl (ErrorsWrap (SecretError ''secret not found'') ''failed to get client secret'')"
  "fst (ConvertKubeConfig (example_platform 0 []) ''cluster1'' ''config''
          (Some example_provider)
          (example_world\<lparr>environ := (environ example_world)(''KUBELOGIN_PATH'' \<mapsto> ''/opt/kubelogin'')\<rparr>))
     = Inl (ErrorsWrap (LookPathError ''executable file not found in $PATH'')
             ''could not convert kubeconfig to non interactive format'')"
  "fst (ConvertKubeConfig (example_platform 1 ''login failed'') ''cluster1'' ''config''
          (Some example_provider) example_world)
     = Inl (ErrorsWrap (ErrorsNew ''login failed'')
             ''could not convert kubeconfig to non interactive format'')"
  "fst (ConvertKubeConfig
          ((example_platform 0 [])\<lparr>ReadFile_err := (\<lambda>name. Some (PathError ''permission denied''))\<rparr>)
          ''cluster1'' ''config'' (Some example_provider) example_world)
     = Inl (PathError ''permission denied'')"
  by (simp_all add: run_defs example_defs)

subsection \<open>The node-pool spec\<close>

lemma DeriveNodePoolSpec_subnet:
  "VnetSubnetID (DeriveNodePoolSpec cluster pool infraPool) =
     SubnetID (SubscriptionID cluster) (orEmpty (ResourceGroupName cluster))
       (orEmpty (VirtualNetworkName cluster)) (orEmpty (SubnetName cluster))"
  by (simp add: DeriveNodePoolSpec_def Let_def split: option.split)

lemmas test_defs = test_cluster_def getMachinePool_def getAzureMachinePool_def
  getAzureMachinePoolWithScaling_def

text \<open>The model yields the two specs the test expects.\<close>

lemma test_Without_Autoscaling:
  "DeriveNodePoolSpec test_cluster (getMachinePool ''pool0'') (getAzureMachinePool ''pool0'' ''System'') =
     \<lparr>Name = ''pool0'', SKU = ''Standard_D2s_v3'', Replicas = 1, Mode = ''System'',
      Cluster = ''cluster1'',
      VnetSubnetID = ''/subscriptions/00000000-0000-0000-0000-000000000000/resourceGroups//providers/Microsoft.Network/virtualNetworks//subnets/'',
      EnableAutoScaling = None, MinCount = None, MaxCount = None\<rparr>"
  by (simp add: DeriveNodePoolSpec_def Let_def test_defs SubnetID_def orEmpty_def)

lemma test_With_Autoscaling:
  "DeriveNodePoolSpec test_cluster (getMachinePool ''pool1'') (getAzureMachinePoolWithScaling ''pool1'' 2 10) =
     \<lparr>Name = ''pool1'', SKU = ''Standard_D2s_v3'', Replicas = 1, Mode = ''User'',
      Cluster = ''cluster1'',
      VnetSubnetID = ''/subscriptions/00000000-0000-0000-0000-000000000000/resourceGroups//providers/Microsoft.Network/virtualNetworks//subnets/'',
      EnableAutoScaling = Some True, MinCount = Some 2, MaxCount = Some 10\<rparr>"
  by (simp add: DeriveNodePoolSpec_def Let_def test_defs SubnetID_def orEmpty_def)

subsection \<open>The reconciler\<close>

lemma reconcileSpec_sel [simp]:
  "fst (reconcileSpec fault k c) = fault k"
  "calls (snd (reconcileSpec fault k c)) = calls c @ [k]"
  by (simp_all add: reconcileSpec_def split: option.split)

lemma reconcileAll_calls:
  "calls (snd (reconcileAll key fault specs c)) = calls c @ map key specs"
  by (induction specs arbitrary: c) (simp_all add: split_beta)

lemma reconcileAll_errs:
  "fst (reconcileAll key fault specs c) =
     concat (map (\<lambda>s. case fault (key s) of None \<Rightarrow> [] | Some err \<Rightarrow> [(key s, err)]) specs)"
  by (induction specs arbitrary: c) (simp_all add: split_beta)

lemma errs_failing:
  "concat (map (\<lambda>s. case fault (key s) of None \<Rightarrow> [] | Some err \<Rightarrow> [(key s, err)]) specs) =
     map (\<lambda>s. (key s, the (fault (key s)))) (failing key fault specs)"
  by (induction specs) (auto simp: failing_def)

section \<open>The claims\<close>

text \<open>
  C1. When the infrastructure pool declares no scaling policy, the derived spec's
  EnableAutoScaling, MinCount and MaxCount are all absent (\<open>None\<close>, not a present zero);
  when it declares a policy with both minimum and maximum set, the derived spec has
  EnableAutoScaling present and true, and MinCount and MaxCount present with exactly
  those values.
\<close>

theorem DeriveNodePoolSpec_autoscaling:
  "(Scaling infraPool = None \<longrightarrow>
      EnableAutoScaling (DeriveNodePoolSpec cluster pool infraPool) = None
      \<and> MinCount (DeriveNodePoolSpec cluster pool infraPool) = None
      \<and> MaxCount (DeriveNodePoolSpec cluster pool infraPool) = None)
   \<and> (Scaling infraPool = Some \<lparr>MinSize = Some lo, MaxSize = Some hi\<rparr> \<longrightarrow>
      EnableAutoScaling (DeriveNodePoolSpec cluster pool infraPool) = Some True
      \<and> MinCount (DeriveNodePoolSpec cluster pool infraPool) = Some lo
      \<and> MaxCount (DeriveNodePoolSpec cluster pool infraPool) = Some hi)"
  by (simp add: DeriveNodePoolSpec_def Let_def)

text \<open>The two pools of the test: no policy, and the policy min = 2, max = 10.\<close>

theorem DeriveNodePoolSpec_autoscaling_witness:
  "Scaling (getAzureMachinePool ''pool0'' ''System'') = None
   \<and> EnableAutoScaling (DeriveNodePoolSpec test_cluster (getMachinePool ''pool0'')
        (getAzureMachinePool ''pool0'' ''System'')) = None
   \<and> MinCount (DeriveNodePoolSpec test_cluster (getMachinePool ''pool0'')
        (getAzureMachinePool ''pool0'' ''System'')) = None
   \<and> MaxCount (DeriveNodePoolSpec test_cluster (getMachinePool ''pool0'')
        (getAzureMachinePool ''pool0'' ''System'')) = None
   \<and> Scaling (getAzureMachinePoolWithScaling ''pool1'' 2 10) =
        Some \<lparr>MinSize = Some 2, MaxSize = Some 10\<rparr>
   \<and> EnableAutoScaling (DeriveNodePoolSpec test_cluster (getMachinePool ''pool1'')
        (getAzureMachinePoolWithScaling ''pool1'' 2 10)) = Some True
   \<and> MinCount (DeriveNodePoolSpec test_cluster (getMachinePool ''pool1'')
        (getAzureMachinePoolWithScaling ''pool1'' 2 10)) = Some 2
   \<and> MaxCount (DeriveNodePoolSpec test_cluster (getMachinePool ''pool1'')
        (getAzureMachinePoolWithScaling ''pool1'' 2 10)) = Some 10"
  using DeriveNodePoolSpec_autoscaling
      [of "getAzureMachinePool ''pool0'' ''System''" test_cluster "getMachinePool ''pool0''" 2 10]
    DeriveNodePoolSpec_autoscaling
      [of "getAzureMachinePoolWithScaling ''pool1'' 2 10" test_cluster "getMachinePool ''pool1''" 2 10]
  by (simp add: getAzureMachinePool_def getAzureMachinePoolWithScaling_def)

text \<open>
  C2. \<^verbatim>\<open>Reconcile\<close> makes a cloud call for every spec of the list, in the list's order,
  whatever fails on the way. When no spec fails it returns no error; when exactly one
  spec fails it returns the aggregate that holds that spec's key with its error and
  nothing else.
\<close>

theorem Reconcile_attempts_all:
  "calls (snd (Reconcile key fault specs c)) = calls c @ map key specs
   \<and> (failing key fault specs = [] \<longrightarrow> fst (Reconcile key fault specs c) = None)
   \<and> (failing key fault specs = [s] \<and> fault (key s) = Some err \<longrightarrow>
        fst (Reconcile key fault specs c) = Some (Aggregate [(key s, err)]))"
  by (simp add: Reconcile_def split_beta reconcileAll_calls reconcileAll_errs errs_failing)

text \<open>Three specs of which the second fails, and the same three with a cloud that never fails.\<close>

theorem Reconcile_attempts_all_witness:
  "failing fst example_fault example_specs = [(''ra-2'', ''contributor'')]
   \<and> example_fault ''ra-2'' = Some (CloudError ''403 Forbidden'')
   \<and> calls (snd (Reconcile fst example_fault example_specs example_cloud)) =
        [''ra-1'', ''ra-2'', ''ra-3'']
   \<and> fst (Reconcile fst example_fault example_specs example_cloud) =
        Some (Aggregate [(''ra-2'', CloudError ''403 Forbidden'')])
   \<and> failing fst (\<lambda>k. None) example_specs = []
   \<and> fst (Reconcile fst (\<lambda>k. None) example_specs example_cloud) = None"
  using Reconcile_attempts_all
      [where key = fst and fault = example_fault and specs = example_specs and c = example_cloud
         and s = "(''ra-2'', ''contributor'')" and err = "CloudError ''403 Forbidden''"]
    Reconcile_attempts_all
      [where key = fst and fault = "\<lambda>k. None" and specs = example_specs and c = example_cloud
         and s = "(''ra-2'', ''contributor'')" and err = "CloudError ''403 Forbidden''"]
  by (simp add: failing_def example_specs_def example_fault_def example_cloud_def)

text \<open>
  C3, as stated, fails for the file: \<^verbatim>\<open>os.Remove\<close> can fail, and the deferred function
  drops its error. In a sticky /tmp that already holds a file of the temporary file's
  name, owned by another user, the write fails, \<^verbatim>\<open>ConvertKubeConfig\<close> returns the write
  error, the removal is attempted and fails too, and the file is still there on return.
\<close>

theorem ConvertKubeConfig_restores_counterexample:
  "fileName (tempDir (environ sticky_world)) ''cluster1'' = ''/tmp/kubeconfig-cluster1''
   \<and> fst (ConvertKubeConfig sticky_platform ''cluster1'' ''config'' (Some example_provider)
        sticky_world) = Inl (PathError ''permission denied'')
   \<and> last (new_events sticky_world
        (snd (ConvertKubeConfig sticky_platform ''cluster1'' ''config'' (Some example_provider)
          sticky_world))) = FileRemove ''/tmp/kubeconfig-cluster1''
   \<and> files (snd (ConvertKubeConfig sticky_platform ''cluster1'' ''config''
        (Some example_provider) sticky_world)) ''/tmp/kubeconfig-cluster1'' = Some ''theirs''"
  by (simp add: run_defs example_defs new_events_def)

text \<open>
  C3, amended. Whenever \<^verbatim>\<open>ConvertKubeConfig\<close> is called with a provider, on every return
  (success or any failure) KUBECONFIG holds what it held before the call, set to the
  same value or unset as before, indeed the whole environment is as before; the last
  thing the call does is \<^verbatim>\<open>os.Remove\<close> of the temporary file, and whenever that removal
  does not fail the temporary file does not exist on return.
\<close>

theorem ConvertKubeConfig_restores:
  "environ (snd (ConvertKubeConfig P c d (Some cp) w)) KubeConfigEnvVarName =
     environ w KubeConfigEnvVarName
   \<and> environ (snd (ConvertKubeConfig P c d (Some cp) w)) = environ w
   \<and> last (new_events w (snd (ConvertKubeConfig P c d (Some cp) w))) =
       FileRemove (fileName (tempDir (environ w)) c)
   \<and> (Remove_err P (fileName (tempDir (environ w)) c) = None \<longrightarrow>
        files (snd (ConvertKubeConfig P c d (Some cp) w)) (fileName (tempDir (environ w)) c)
          = None)"
proof -
  have env: "environ (snd (ConvertKubeConfig P c d (Some cp) w)) = environ w"
    by (cases "environ w KubeConfigEnvVarName")
       (simp_all add: ConvertKubeConfig_def Let_def split_beta deferred_sel convert_body_environ
          map_upd_triv fun_upd_idem)
  obtain t where
    "new_events w (snd (ConvertKubeConfig P c d (Some cp) w)) =
       [EnvRead ''TMPDIR'', EnvRead KubeConfigEnvVarName,
        EnvSet KubeConfigEnvVarName (fileName (tempDir (environ w)) c),
        FileWrite (fileName (tempDir (environ w)) c) d] @ t @
       [case environ w KubeConfigEnvVarName of
          Some v \<Rightarrow> EnvSet KubeConfigEnvVarName v
        | None \<Rightarrow> EnvUnset KubeConfigEnvVarName,
        FileRemove (fileName (tempDir (environ w)) c)]"
    using ConvertKubeConfig_events by blast
  then have lst: "last (new_events w (snd (ConvertKubeConfig P c d (Some cp) w))) =
      FileRemove (fileName (tempDir (environ w)) c)"
    by simp
  have fl: "Remove_err P (fileName (tempDir (environ w)) c) = None \<longrightarrow>
      files (snd (ConvertKubeConfig P c d (Some cp) w)) (fileName (tempDir (environ w)) c) = None"
    by (simp add: ConvertKubeConfig_def Let_def split_beta deferred_sel)
  from env lst fl show ?thesis by simp
qed

text \<open>The successful run of the example: the removal does not fail, and the file is gone.\<close>

theorem ConvertKubeConfig_restores_witness:
  "Remove_err (example_platform 0 []) (fileName (tempDir (environ example_world)) ''cluster1'')
     = None
   \<and> environ (snd (ConvertKubeConfig (example_platform 0 []) ''cluster1'' ''config''
        (Some example_provider) example_world)) = environ example_world
   \<and> last (new_events example_world
        (snd (ConvertKubeConfig (example_platform 0 []) ''cluster1'' ''config''
          (Some example_provider) example_world))) = FileRemove ''/tmp/kubeconfig-cluster1''
   \<and> files (snd (ConvertKubeConfig (example_platform 0 []) ''cluster1'' ''config''
        (Some example_provider) example_world)) ''/tmp/kubeconfig-cluster1'' = None"
  using ConvertKubeConfig_restores
      [where P = "example_platform 0 []" and c = "''cluster1''" and d = "''config''"
         and cp = example_provider and w = example_world]
  by (simp add: example_defs fileName_def)

text \<open>
  C4. For a cluster with subscription 00000000-0000-0000-0000-000000000000 and no
  resource group, virtual network or subnet, the derived spec's VnetSubnetID is
  literally the template with empty segments, doubled slashes included.
\<close>

theorem DeriveNodePoolSpec_VnetSubnetID:
  "VnetSubnetID (DeriveNodePoolSpec
      \<lparr>ClusterName = name, SubscriptionID = ''00000000-0000-0000-0000-000000000000'',
       ResourceGroupName = None, VirtualNetworkName = None, SubnetName = None\<rparr>
      pool infraPool) =
   ''/subscriptions/00000000-0000-0000-0000-000000000000/resourceGroups//providers/Microsoft.Network/virtualNetworks//subnets/''"
  by (simp add: DeriveNodePoolSpec_subnet SubnetID_def orEmpty_def)

text \<open>
  C5. Called with a nil credentials provider, \<^verbatim>\<open>ConvertKubeConfig\<close> returns at once the
  configuration error "cannot convert kubeconfig without credential provider" and no
  config bytes, and the world is as it was: no file was written, read or removed, no
  environment variable was touched and no process was run.
\<close>

theorem ConvertKubeConfig_nil_provider:
  "ConvertKubeConfig P clusterName configData None w =
     (Inl (ErrorsNew ''cannot convert kubeconfig without credential provider''), w)"
  by (simp add: ConvertKubeConfig_def)

text \<open>
  C6. When the write succeeds, the secret resolves, the helper is found and it exits
  with a status other than zero, \<^verbatim>\<open>ConvertKubeConfig\<close> returns no config bytes but the
  error that wraps, under "could not convert kubeconfig to non interactive format", an
  error whose text is what the helper wrote to its standard error.
\<close>

theorem ConvertKubeConfig_helper_fails:
  assumes "WriteFile_err P (fileName (tempDir (environ w)) c) = None"
    and "GetClientSecret cp = Inr secret"
    and "LookPath P (kubeloginPath (environ w)) = Inr path"
    and "Run P path (kubeloginArgs cp secret (fileName (tempDir (environ w)) c))
           (cmdEnv (environ w))
           ((files w)(fileName (tempDir (environ w)) c \<mapsto> d)) = (Exited n, errb, fs')"
    and "n \<noteq> 0"
  shows "fst (ConvertKubeConfig P c d (Some cp) w) =
           Inl (ErrorsWrap (ErrorsNew errb) ''could not convert kubeconfig to non interactive format'')
         \<and> Error (ErrorsWrap (ErrorsNew errb) ''could not convert kubeconfig to non interactive format'')
             = ''could not convert kubeconfig to non interactive format: '' @ errb"
  using assms
  by (simp add: ConvertKubeConfig_def convert_body_def Let_def split_beta ExecCommand_found
      run_err_def envValue_def)

theorem ConvertKubeConfig_helper_fails_witness:
  "WriteFile_err (example_platform 1 ''login failed'')
       (fileName (tempDir (environ example_world)) ''cluster1'') = None
   \<and> GetClientSecret example_provider = Inr ''s3cret''
   \<and> LookPath (example_platform 1 ''login failed'') (kubeloginPath (environ example_world))
        = Inr ''/usr/local/bin/kubelogin''
   \<and> (1::int) \<noteq> 0
   \<and> fst (ConvertKubeConfig (example_platform 1 ''login failed'') ''cluster1'' ''config''
        (Some example_provider) example_world)
       = Inl (ErrorsWrap (ErrorsNew ''login failed'')
               ''could not convert kubeconfig to non interactive format'')
   \<and> Error (ErrorsWrap (ErrorsNew ''login failed'')
               ''could not convert kubeconfig to non interactive format'')
       = ''could not convert kubeconfig to non interactive format: login failed''"
  using ConvertKubeConfig_helper_fails
      [where P = "example_platform 1 ''login failed''" and c = "''cluster1''"
         and cp = example_provider and secret = "''s3cret''" and w = example_world
         and path = "''/usr/local/bin/kubelogin''" and d = "''config''" and n = 1
         and errb = "''login failed''"
         and fs' = "(files example_world)
                      (fileName (tempDir (environ example_world)) ''cluster1'' \<mapsto> ''config'')"]
  by (simp add: example_defs)

text \<open>
  C7. The derived spec's Replicas is 1 for every cluster, pool and infrastructure pool,
  with or without a scaling policy and whatever its bounds.
\<close>

theorem DeriveNodePoolSpec_Replicas:
  "Replicas (DeriveNodePoolSpec cluster pool infraPool) = 1"
  by (simp add: DeriveNodePoolSpec_def Let_def split: option.split)

text \<open>
  C8, as stated, fails: besides HOME, PATH, KUBECONFIG and the helper-location override
  KUBELOGIN_PATH, the conversion reads TMPDIR, since \<^verbatim>\<open>os.TempDir\<close> takes the temporary
  directory from it. In the run of the example started with TMPDIR=/var/tmp the first
  environment call reads TMPDIR, and the file written is /var/tmp/kubeconfig-cluster1.
\<close>

theorem ConvertKubeConfig_env_counterexample:
  "env_names (new_events tmpdir_world
      (snd (ConvertKubeConfig (example_platform 0 []) ''cluster1'' ''config''
        (Some example_provider) tmpdir_world)))
     = [''TMPDIR'', ''KUBECONFIG'', ''KUBECONFIG'', ''KUBELOGIN_PATH'', ''KUBECONFIG'', ''PATH'',
        ''HOME'', ''PATH'', ''KUBECONFIG'']
   \<and> \<not> set (env_names (new_events tmpdir_world
      (snd (ConvertKubeConfig (example_platform 0 []) ''cluster1'' ''config''
        (Some example_provider) tmpdir_world))))
       \<subseteq> {''HOME'', ''PATH'', ''KUBECONFIG'', ''KUBELOGIN_PATH''}
   \<and> take 4 (new_events tmpdir_world
      (snd (ConvertKubeConfig (example_platform 0 []) ''cluster1'' ''config''
        (Some example_provider) tmpdir_world)))
     = [EnvRead ''TMPDIR'', EnvRead ''KUBECONFIG'',
        EnvSet ''KUBECONFIG'' ''/var/tmp/kubeconfig-cluster1'',
        FileWrite ''/var/tmp/kubeconfig-cluster1'' ''config'']"
  by (simp add: run_defs example_defs new_events_def)

text \<open>
  C8, amended. The conversion runs a child process exactly when the write has succeeded,
  the secret has resolved and the helper has been found, and that child is handed
  exactly the two entries HOME=... and PATH=... with the values the process has for them
  (the empty string for an unset one). The conversion reads or writes no environment
  variable other than HOME, PATH, KUBECONFIG, KUBELOGIN_PATH and TMPDIR. TMPDIR is read
  once. KUBECONFIG is looked up, set to the path of the temporary file, read back once
  the write has succeeded and the secret has resolved (and not otherwise), and at the
  end set to the value it had before the call or unset if it had none. KUBELOGIN_PATH is
  looked up once when the write has succeeded and the secret has resolved, and not
  otherwise.
\<close>

theorem ConvertKubeConfig_env_footprint:
  "child_envs (new_events w (snd (ConvertKubeConfig P c d (Some cp) w))) =
     (if WriteFile_err P (fileName (tempDir (environ w)) c) = None
         \<and> \<not> isl (GetClientSecret cp)
         \<and> \<not> isl (LookPath P (kubeloginPath (environ w)))
      then [[''HOME='' @ envValue (environ w) ''HOME'', ''PATH='' @ envValue (environ w) ''PATH'']]
      else [])
   \<and> set (env_names (new_events w (snd (ConvertKubeConfig P c d (Some cp) w))))
       \<subseteq> {''HOME'', ''PATH'', KubeConfigEnvVarName, KubeloginEnvVarName, ''TMPDIR''}
   \<and> events_on ''TMPDIR'' (new_events w (snd (ConvertKubeConfig P c d (Some cp) w))) =
       [EnvRead ''TMPDIR'']
   \<and> events_on KubeConfigEnvVarName (new_events w (snd (ConvertKubeConfig P c d (Some cp) w))) =
       [EnvRead KubeConfigEnvVarName,
        EnvSet KubeConfigEnvVarName (fileName (tempDir (environ w)) c)] @
       (if WriteFile_err P (fileName (tempDir (environ w)) c) = None
           \<and> \<not> isl (GetClientSecret cp)
        then [EnvRead KubeConfigEnvVarName] else []) @
       [case environ w KubeConfigEnvVarName of
          Some v \<Rightarrow> EnvSet KubeConfigEnvVarName v
        | None \<Rightarrow> EnvUnset KubeConfigEnvVarName]
   \<and> events_on KubeloginEnvVarName (new_events w (snd (ConvertKubeConfig P c d (Some cp) w))) =
       (if WriteFile_err P (fileName (tempDir (environ w)) c) = None
           \<and> \<not> isl (GetClientSecret cp)
        then [EnvRead KubeloginEnvVarName] else [])"
proof -
  let ?n = "fileName (tempDir (environ w)) c"
  let ?T = "new_events w (snd (ConvertKubeConfig P c d (Some cp) w))"
  let ?r = "case environ w KubeConfigEnvVarName of
              Some v \<Rightarrow> EnvSet KubeConfigEnvVarName v
            | None \<Rightarrow> EnvUnset KubeConfigEnvVarName"
  obtain t where T: "?T =
       [EnvRead ''TMPDIR'', EnvRead KubeConfigEnvVarName, EnvSet KubeConfigEnvVarName ?n,
        FileWrite ?n d] @ t @ [?r, FileRemove ?n]"
    and tk: "events_on KubeConfigEnvVarName t =
         (if WriteFile_err P ?n = None \<and> \<not> isl (GetClientSecret cp)
          then [EnvRead KubeConfigEnvVarName] else [])"
    and tl: "events_on KubeloginEnvVarName t =
         (if WriteFile_err P ?n = None \<and> \<not> isl (GetClientSecret cp)
          then [EnvRead KubeloginEnvVarName] else [])"
    and tt: "events_on ''TMPDIR'' t = []"
    and tn: "set (env_names t) \<subseteq> {KubeConfigEnvVarName, KubeloginEnvVarName, ''HOME'', ''PATH''}"
    and tc: "child_envs t =
         (if WriteFile_err P ?n = None \<and> \<not> isl (GetClientSecret cp)
             \<and> \<not> isl (LookPath P (kubeloginPath (environ w)))
          then [cmdEnv (environ w)] else [])"
    using ConvertKubeConfig_events [of w P c d cp] by blast
  have rn: "env_name ?r = [KubeConfigEnvVarName]" and rc: "child_env ?r = []"
    by (simp_all split: option.split)
  have c1: "child_envs ?T =
     (if WriteFile_err P ?n = None \<and> \<not> isl (GetClientSecret cp)
         \<and> \<not> isl (LookPath P (kubeloginPath (environ w)))
      then [[''HOME='' @ envValue (environ w) ''HOME'', ''PATH='' @ envValue (environ w) ''PATH'']]
      else [])"
    unfolding T by (simp add: tc rc cmdEnv_def)
  have c2: "set (env_names ?T)
       \<subseteq> {''HOME'', ''PATH'', KubeConfigEnvVarName, KubeloginEnvVarName, ''TMPDIR''}"
    unfolding T using tn by (auto simp add: rn)
  have c3: "events_on ''TMPDIR'' ?T = [EnvRead ''TMPDIR'']"
    unfolding T by (simp add: tt rn)
  have c4: "events_on KubeConfigEnvVarName ?T =
       [EnvRead KubeConfigEnvVarName, EnvSet KubeConfigEnvVarName ?n] @
       (if WriteFile_err P ?n = None \<and> \<not> isl (GetClientSecret cp)
        then [EnvRead KubeConfigEnvVarName] else []) @ [?r]"
    unfolding T by (simp add: tk rn)
  have c5: "events_on KubeloginEnvVarName ?T =
       (if WriteFile_err P ?n = None \<and> \<not> isl (GetClientSecret cp)
        then [EnvRead KubeloginEnvVarName] else [])"
    unfolding T by (simp add: tl rn)
  from c1 c2 c3 c4 c5 show ?thesis by blast
qed

text \<open>
  C9. The first thing \<^verbatim>\<open>ConvertKubeConfig\<close> does with a provider is to take the temporary
  directory, look KUBECONFIG up, point it at the temporary file and write the input
  bytes to that file. The bytes do reach the file: when the write succeeds, the secret
  resolves and the helper is found, the helper runs on the files in which that path
  holds exactly the input bytes, and when it exits with status 0 and the read-back does
  not fail the result is what the helper left at that path. The file's path is the
  temporary directory, "/kubeconfig-" and the cluster name: for a given temporary
  directory it depends on the cluster name only, equal names give equal paths and
  different names give different paths.
\<close>

theorem ConvertKubeConfig_temp_file:
  "take 4 (new_events w (snd (ConvertKubeConfig P c d (Some cp) w))) =
     [EnvRead ''TMPDIR'', EnvRead KubeConfigEnvVarName,
      EnvSet KubeConfigEnvVarName (fileName (tempDir (environ w)) c),
      FileWrite (fileName (tempDir (environ w)) c) d]
   \<and> (WriteFile_err P (fileName (tempDir (environ w)) c) = None
       \<and> GetClientSecret cp = Inr secret
       \<and> LookPath P (kubeloginPath (environ w)) = Inr path
       \<and> Run P path (kubeloginArgs cp secret (fileName (tempDir (environ w)) c))
            (cmdEnv (environ w))
            ((files w)(fileName (tempDir (environ w)) c \<mapsto> d)) = (Exited 0, errb, fs')
       \<and> fs' (fileName (tempDir (environ w)) c) = Some d'
       \<and> ReadFile_err P (fileName (tempDir (environ w)) c) = None
      \<longrightarrow> fst (ConvertKubeConfig P c d (Some cp) w) = Inr d')
   \<and> fileName dir c = dir @ ''/kubeconfig-'' @ c
   \<and> (fileName dir ca = fileName dir cb \<longleftrightarrow> ca = cb)"
proof -
  let ?n = "fileName (tempDir (environ w)) c"
  obtain t where
    "new_events w (snd (ConvertKubeConfig P c d (Some cp) w)) =
       [EnvRead ''TMPDIR'', EnvRead KubeConfigEnvVarName, EnvSet KubeConfigEnvVarName ?n,
        FileWrite ?n d] @ t @
       [case environ w KubeConfigEnvVarName of
          Some v \<Rightarrow> EnvSet KubeConfigEnvVarName v
        | None \<Rightarrow> EnvUnset KubeConfigEnvVarName,
        FileRemove ?n]"
    using ConvertKubeConfig_events by blast
  then have tr: "take 4 (new_events w (snd (ConvertKubeConfig P c d (Some cp) w))) =
     [EnvRead ''TMPDIR'', EnvRead KubeConfigEnvVarName, EnvSet KubeConfigEnvVarName ?n,
      FileWrite ?n d]"
    by simp
  have st: "WriteFile_err P ?n = None
       \<and> GetClientSecret cp = Inr secret
       \<and> LookPath P (kubeloginPath (environ w)) = Inr path
       \<and> Run P path (kubeloginArgs cp secret ?n) (cmdEnv (environ w)) ((files w)(?n \<mapsto> d))
           = (Exited 0, errb, fs')
       \<and> fs' ?n = Some d'
       \<and> ReadFile_err P ?n = None
      \<longrightarrow> fst (ConvertKubeConfig P c d (Some cp) w) = Inr d'"
    by (simp add: ConvertKubeConfig_def convert_body_def Let_def split_beta ExecCommand_found
        run_err_def envValue_def ReadFile_def)
  have inj: "fileName dir c = dir @ ''/kubeconfig-'' @ c
      \<and> (fileName dir ca = fileName dir cb \<longleftrightarrow> ca = cb)"
    by (simp add: fileName_def)
  from tr st inj show ?thesis by blast
qed

text \<open>
  The successful run of the example: the helper leaves the files alone, and the bytes
  read back are the input bytes.
\<close>

theorem ConvertKubeConfig_temp_file_witness:
  "WriteFile_err (example_platform 0 []) (fileName (tempDir (environ example_world)) ''cluster1'')
     = None
   \<and> GetClientSecret example_provider = Inr ''s3cret''
   \<and> LookPath (example_platform 0 []) (kubeloginPath (environ example_world))
       = Inr ''/usr/local/bin/kubelogin''
   \<and> Run (example_platform 0 []) ''/usr/local/bin/kubelogin''
        (kubeloginArgs example_provider ''s3cret''
           (fileName (tempDir (environ example_world)) ''cluster1''))
        (cmdEnv (environ example_world))
        ((files example_world)
           (fileName (tempDir (environ example_world)) ''cluster1'' \<mapsto> ''config''))
       = (Exited 0, [],
          (files example_world)
            (fileName (tempDir (environ example_world)) ''cluster1'' \<mapsto> ''config''))
   \<and> ReadFile_err (example_platform 0 [])
        (fileName (tempDir (environ example_world)) ''cluster1'') = None
   \<and> fileName (tempDir (environ example_world)) ''cluster1'' = ''/tmp/kubeconfig-cluster1''
   \<and> fst (ConvertKubeConfig (example_platform 0 []) ''cluster1'' ''config''
        (Some example_provider) example_world) = Inr ''config''"
  using ConvertKubeConfig_temp_file
      [where P = "example_platform 0 []" and c = "''cluster1''" and d = "''config''"
         and cp = example_provider and w = example_world and secret = "''s3cret''"
         and path = "''/usr/local/bin/kubelogin''" and errb = "[]"
         and fs' = "(files example_world)
                      (fileName (tempDir (environ example_world)) ''cluster1'' \<mapsto> ''config'')"
         and d' = "''config''" and dir = "''/tmp''" and ca = "''cluster1''" and cb = "''cluster2''"]
  by (simp add: example_defs fileName_def)

text \<open>
  C10. When \<^verbatim>\<open>ExecCommand\<close> finds the executable and the child exits with a status other
  than zero, the error it returns is \<^verbatim>\<open>errors.New\<close> of the text captured on the child's
  standard error: its message is that text, the empty string when the child wrote
  nothing, and the exit status is not part of it.
\<close>

theorem ExecCommand_exit_nonzero:
  assumes "LookPath P cmdName = Inr path"
    and "Run P path cmdArgs (cmdEnv (environ w)) (files w) = (Exited n, errb, fs')"
    and "n \<noteq> 0"
  shows "fst (ExecCommand P cmdName cmdArgs w) = Some (ErrorsNew errb)
         \<and> Error (ErrorsNew errb) = errb"
  using assms by (simp add: ExecCommand_found run_err_def)

text \<open>A child that exits with status 1 and writes nothing: the error's message is empty.\<close>

theorem ExecCommand_exit_nonzero_witness:
  "LookPath (example_platform 1 []) ''kubelogin'' = Inr ''/usr/local/bin/kubelogin''
   \<and> Run (example_platform 1 []) ''/usr/local/bin/kubelogin'' [''convert-kubeconfig'']
        (cmdEnv (environ example_world)) (files example_world)
       = (Exited 1, [], files example_world)
   \<and> (1::int) \<noteq> 0
   \<and> fst (ExecCommand (example_platform 1 []) ''kubelogin'' [''convert-kubeconfig'']
        example_world) = Some (ErrorsNew [])
   \<and> Error (ErrorsNew []) = []"
  using ExecCommand_exit_nonzero
      [of "example_platform 1 []" "''kubelogin''" "''/usr/local/bin/kubelogin''"
          "[''convert-kubeconfig'']" example_world 1 "[]" "files example_world"]
  by (simp add: example_platform_def)

end
